theory Spec2Isabelle
  imports Complex_Main
begin

section \<open>Python values\<close>

text \<open>
  The bot handles values decoded from JSON and values of the module constants. A value is
  \<open>None\<close>, a bool, an int, a float (the real number it denotes), a str, a list or a dict with
  str keys. A dict is an association list; \<open>map_of\<close> is the lookup, so a key is present
  exactly when \<open>map_of d k \<noteq> None\<close>, also when its value is \<open>None\<close>.
  A str is the list of the bytes of its UTF-8 encoding.
\<close>

datatype pyval =
    PNone
  | PBool bool
  | PInt int
  | PFloat real
  | PStr string
  | PList "pyval list"
  | PDict "(string \<times> pyval) list"

text \<open>Truth value of an object, as \<open>or\<close>, \<open>all\<close> and \<open>if\<close> test it.\<close>

fun truthy :: "pyval \<Rightarrow> bool" where
  "truthy PNone = False"
| "truthy (PBool b) = b"
| "truthy (PInt i) = (i \<noteq> 0)"
| "truthy (PFloat r) = (r \<noteq> 0)"
| "truthy (PStr s) = (s \<noteq> [])"
| "truthy (PList xs) = (xs \<noteq> [])"
| "truthy (PDict kvs) = (kvs \<noteq> [])"

fun type_name :: "pyval \<Rightarrow> string" where
  "type_name PNone = ''NoneType''"
| "type_name (PBool b) = ''bool''"
| "type_name (PInt i) = ''int''"
| "type_name (PFloat r) = ''float''"
| "type_name (PStr s) = ''str''"
| "type_name (PList xs) = ''list''"
| "type_name (PDict kvs) = ''dict''"

text \<open>\<open>d.get(key)\<close>: the value of the key, \<open>None\<close> when the key is absent.\<close>

definition dict_get :: "(string \<times> pyval) list \<Rightarrow> string \<Rightarrow> pyval" where
  "dict_get d key = (case map_of d key of None \<Rightarrow> PNone | Some v \<Rightarrow> v)"

section \<open>Exceptions\<close>

text \<open>
  The classes of \<open>exceptions.py\<close> are taken as plain subclasses of \<open>Exception\<close>
  carrying their message. \<open>LibraryError\<close> stands for any other exception raised by the
  HTTP client, the JSON decoder or the Telegram client, with its text.
\<close>

datatype exn =
    SendMessageFailure string
  | GetApiError string
  | WrongGetApiStatus string
  | EmptyResponse string
  | IncorrectApiAnswer string
  | NoHomeworkInfo string
  | PyTypeError string
  | PyKeyError string
  | PyAttributeError string
  | LibraryError string

definition quote :: string where
  "quote = [CHR 0x27]"

definition dquote :: string where
  "dquote = [CHR 0x22]"

text \<open>
  \<open>str(error)\<close>, which an f-string inserts for \<open>{error}\<close>. A \<open>KeyError\<close> prints the
  \<open>repr\<close> of its argument; the source raises it only with three literals that hold no
  quote, backslash or unprintable character, whose \<open>repr\<close> is the text in single quotes.
\<close>

fun exn_str :: "exn \<Rightarrow> string" where
  "exn_str (SendMessageFailure m) = m"
| "exn_str (GetApiError m) = m"
| "exn_str (WrongGetApiStatus m) = m"
| "exn_str (EmptyResponse m) = m"
| "exn_str (IncorrectApiAnswer m) = m"
| "exn_str (NoHomeworkInfo m) = m"
| "exn_str (PyTypeError m) = m"
| "exn_str (PyKeyError m) = quote @ m @ quote"
| "exn_str (PyAttributeError m) = m"
| "exn_str (LibraryError m) = m"

section \<open>Constants, environment and observable events\<close>

text \<open>
  \<open>constants.py\<close> is not part of the sources at hand, so its values are parameters.
  \<open>HOMEWORK_STATUSES\<close> maps a status string to its verdict text. \<open>str_other\<close> is
  Python's \<open>str()\<close> on values that are not a str, which f-strings apply to such values.
\<close>

record config =
  PRACTICUM_TOKEN :: pyval
  TELEGRAM_TOKEN :: pyval
  TELEGRAM_CHAT_ID :: pyval
  ENDPOINT :: pyval
  HEADERS :: pyval
  HOMEWORK_STATUSES :: "(string \<times> string) list"
  RETRY_TIME :: nat
  str_other :: "pyval \<Rightarrow> string"

definition fstr :: "config \<Rightarrow> pyval \<Rightarrow> string" where
  "fstr cfg v = (case v of PStr s \<Rightarrow> s | _ \<Rightarrow> str_other cfg v)"

text \<open>What the outside world answers during one cycle of the loop.\<close>

datatype json_outcome =
    JsonValue pyval
  | JsonDecodeError
  | JsonOtherError string

datatype http_outcome =
    RequestRaises string
  | Response int json_outcome

datatype send_outcome =
    SendOk
  | SendTelegramError string
  | SendOtherError string

record cycle_env =
  time_now :: int
  http :: http_outcome
  send_try :: send_outcome
  send_handler :: send_outcome

datatype level = DEBUG | INFO | ERROR | CRITICAL

datatype event =
    Log level string
  | HttpGet pyval pyval pyval
  | BotSend pyval string send_outcome
  | Sleep nat

section \<open>Message texts of the source\<close>

text \<open>
  The literals of \<open>homework.py\<close> are Russian; each constant below is the UTF-8 encoding
  of one literal, with an English rendering in its comment.
\<close>

definition msg_sent_prefix :: string where
  \<comment> \<open>send_message, info log, before the message: Message + opening quote\<close>
  "msg_sent_prefix =
     [CHR 0xD0, CHR 0xA1, CHR 0xD0, CHR 0xBE, CHR 0xD0, CHR 0xBE, CHR 0xD0, CHR 0xB1,
      CHR 0xD1, CHR 0x89, CHR 0xD0, CHR 0xB5, CHR 0xD0, CHR 0xBD, CHR 0xD0, CHR 0xB8,
      CHR 0xD0, CHR 0xB5]
    @ '' ''
    @ [CHR 0x22]"

definition msg_sent_suffix :: string where
  \<comment> \<open>send_message, info log, after the message: closing quote + sent to the Telegram chat\<close>
  "msg_sent_suffix =
     [CHR 0x22]
    @ '' ''
    @ [CHR 0xD0, CHR 0xBE, CHR 0xD1, CHR 0x82, CHR 0xD0, CHR 0xBF, CHR 0xD1, CHR 0x80,
      CHR 0xD0, CHR 0xB0, CHR 0xD0, CHR 0xB2, CHR 0xD0, CHR 0xBB, CHR 0xD0, CHR 0xB5,
      CHR 0xD0, CHR 0xBD, CHR 0xD0, CHR 0xBE]
    @ '' ''
    @ [CHR 0xD0, CHR 0xB2]
    @ '' Telegram ''
    @ [CHR 0xD1, CHR 0x87, CHR 0xD0, CHR 0xB0, CHR 0xD1, CHR 0x82]"

definition msg_send_failure_prefix :: string where
  \<comment> \<open>send_message: Failure while sending the message:\<close>
  "msg_send_failure_prefix =
     [CHR 0xD0, CHR 0xA1, CHR 0xD0, CHR 0xB1, CHR 0xD0, CHR 0xBE, CHR 0xD0, CHR 0xB9]
    @ '' ''
    @ [CHR 0xD0, CHR 0xBF, CHR 0xD1, CHR 0x80, CHR 0xD0, CHR 0xB8]
    @ '' ''
    @ [CHR 0xD0, CHR 0xBE, CHR 0xD1, CHR 0x82, CHR 0xD0, CHR 0xBF, CHR 0xD1, CHR 0x80,
      CHR 0xD0, CHR 0xB0, CHR 0xD0, CHR 0xB2, CHR 0xD0, CHR 0xBA, CHR 0xD0, CHR 0xB5]
    @ '' ''
    @ [CHR 0xD1, CHR 0x81, CHR 0xD0, CHR 0xBE, CHR 0xD0, CHR 0xBE, CHR 0xD0, CHR 0xB1,
      CHR 0xD1, CHR 0x89, CHR 0xD0, CHR 0xB5, CHR 0xD0, CHR 0xBD, CHR 0xD0, CHR 0xB8,
      CHR 0xD1, CHR 0x8F]
    @ '': ''"

definition msg_status_code_prefix :: string where
  \<comment> \<open>get_api_answer: Status code of the response to the request to + opening quote\<close>
  "msg_status_code_prefix =
     [CHR 0xD0, CHR 0xA1, CHR 0xD1, CHR 0x82, CHR 0xD0, CHR 0xB0, CHR 0xD1, CHR 0x82,
      CHR 0xD1, CHR 0x83, CHR 0xD1, CHR 0x81]
    @ '' ''
    @ [CHR 0xD0, CHR 0xBA, CHR 0xD0, CHR 0xBE, CHR 0xD0, CHR 0xB4]
    @ '' ''
    @ [CHR 0xD0, CHR 0xBE, CHR 0xD1, CHR 0x82, CHR 0xD0, CHR 0xB2, CHR 0xD0, CHR 0xB5,
      CHR 0xD1, CHR 0x82, CHR 0xD0, CHR 0xB0]
    @ '' ''
    @ [CHR 0xD0, CHR 0xBD, CHR 0xD0, CHR 0xB0]
    @ '' ''
    @ [CHR 0xD0, CHR 0xB7, CHR 0xD0, CHR 0xB0, CHR 0xD0, CHR 0xBF, CHR 0xD1, CHR 0x80,
      CHR 0xD0, CHR 0xBE, CHR 0xD1, CHR 0x81]
    @ '' ''
    @ [CHR 0xD0, CHR 0xBA]
    @ '' ''
    @ [CHR 0x22]"

definition msg_status_code_suffix :: string where
  \<comment> \<open>get_api_answer: closing quote + equals\<close>
  "msg_status_code_suffix =
     [CHR 0x22]
    @ '' ''
    @ [CHR 0xD1, CHR 0x80, CHR 0xD0, CHR 0xB0, CHR 0xD0, CHR 0xB2, CHR 0xD0, CHR 0xB5,
      CHR 0xD0, CHR 0xBD]"

definition msg_api_failure_prefix :: string where
  \<comment> \<open>get_api_answer: Failure of the API service:\<close>
  "msg_api_failure_prefix =
     [CHR 0xD0, CHR 0xA1, CHR 0xD0, CHR 0xB1, CHR 0xD0, CHR 0xBE, CHR 0xD0, CHR 0xB9]
    @ '' ''
    @ [CHR 0xD0, CHR 0xB2]
    @ '' ''
    @ [CHR 0xD1, CHR 0x80, CHR 0xD0, CHR 0xB0, CHR 0xD0, CHR 0xB1, CHR 0xD0, CHR 0xBE,
      CHR 0xD1, CHR 0x82, CHR 0xD0, CHR 0xB5]
    @ '' API ''
    @ [CHR 0xD1, CHR 0x81, CHR 0xD0, CHR 0xB5, CHR 0xD1, CHR 0x80, CHR 0xD0, CHR 0xB2,
      CHR 0xD0, CHR 0xB8, CHR 0xD1, CHR 0x81, CHR 0xD0, CHR 0xB0]
    @ '': ''"

definition jsn_message :: string where
  \<comment> \<open>get_api_answer: Error with JSON\<close>
  "jsn_message =
     [CHR 0xD0, CHR 0x9E, CHR 0xD1, CHR 0x88, CHR 0xD0, CHR 0xB8, CHR 0xD0, CHR 0xB1,
      CHR 0xD0, CHR 0xBA, CHR 0xD0, CHR 0xB0]
    @ '' ''
    @ [CHR 0xD1, CHR 0x81]
    @ '' JSON''"

definition msg_empty_response :: string where
  \<comment> \<open>check_response: No data in the response of the API service.\<close>
  "msg_empty_response =
     [CHR 0xD0, CHR 0x9D, CHR 0xD0, CHR 0xB5, CHR 0xD1, CHR 0x82]
    @ '' ''
    @ [CHR 0xD0, CHR 0xB4, CHR 0xD0, CHR 0xB0, CHR 0xD0, CHR 0xBD, CHR 0xD0, CHR 0xBD,
      CHR 0xD1, CHR 0x8B, CHR 0xD1, CHR 0x85]
    @ '' ''
    @ [CHR 0xD0, CHR 0xB2]
    @ '' ''
    @ [CHR 0xD0, CHR 0xBE, CHR 0xD1, CHR 0x82, CHR 0xD0, CHR 0xB2, CHR 0xD0, CHR 0xB5,
      CHR 0xD1, CHR 0x82, CHR 0xD0, CHR 0xB5]
    @ '' ''
    @ [CHR 0xD1, CHR 0x81, CHR 0xD0, CHR 0xB5, CHR 0xD1, CHR 0x80, CHR 0xD0, CHR 0xB2,
      CHR 0xD0, CHR 0xB8, CHR 0xD1, CHR 0x81, CHR 0xD0, CHR 0xB0]
    @ '' API.''"

definition msg_not_a_dict :: string where
  \<comment> \<open>check_response: Received an incorrect data type from the API service.\<close>
  "msg_not_a_dict =
     [CHR 0xD0, CHR 0x9F, CHR 0xD0, CHR 0xBE, CHR 0xD0, CHR 0xBB, CHR 0xD1, CHR 0x83,
      CHR 0xD1, CHR 0x87, CHR 0xD0, CHR 0xB5, CHR 0xD0, CHR 0xBD]
    @ '' ''
    @ [CHR 0xD0, CHR 0xBD, CHR 0xD0, CHR 0xB5, CHR 0xD0, CHR 0xBA, CHR 0xD0, CHR 0xBE,
      CHR 0xD1, CHR 0x80, CHR 0xD1, CHR 0x80, CHR 0xD0, CHR 0xB5, CHR 0xD0, CHR 0xBA,
      CHR 0xD1, CHR 0x82, CHR 0xD0, CHR 0xBD, CHR 0xD1, CHR 0x8B, CHR 0xD0, CHR 0xB9]
    @ '' ''
    @ [CHR 0xD1, CHR 0x82, CHR 0xD0, CHR 0xB8, CHR 0xD0, CHR 0xBF]
    @ '' ''
    @ [CHR 0xD0, CHR 0xB4, CHR 0xD0, CHR 0xB0, CHR 0xD0, CHR 0xBD, CHR 0xD0, CHR 0xBD,
      CHR 0xD1, CHR 0x8B, CHR 0xD1, CHR 0x85]
    @ '' ''
    @ [CHR 0xD0, CHR 0xBE, CHR 0xD1, CHR 0x82]
    @ '' ''
    @ [CHR 0xD1, CHR 0x81, CHR 0xD0, CHR 0xB5, CHR 0xD1, CHR 0x80, CHR 0xD0, CHR 0xB2,
      CHR 0xD0, CHR 0xB8, CHR 0xD1, CHR 0x81, CHR 0xD0, CHR 0xB0]
    @ '' API.''"

definition msg_incorrect_answer :: string where
  \<comment> \<open>check_response: Received an incorrect response from the API service.\<close>
  "msg_incorrect_answer =
     [CHR 0xD0, CHR 0x9F, CHR 0xD0, CHR 0xBE, CHR 0xD0, CHR 0xBB, CHR 0xD1, CHR 0x83,
      CHR 0xD1, CHR 0x87, CHR 0xD0, CHR 0xB5, CHR 0xD0, CHR 0xBD]
    @ '' ''
    @ [CHR 0xD0, CHR 0xBD, CHR 0xD0, CHR 0xB5, CHR 0xD0, CHR 0xBA, CHR 0xD0, CHR 0xBE,
      CHR 0xD1, CHR 0x80, CHR 0xD1, CHR 0x80, CHR 0xD0, CHR 0xB5, CHR 0xD0, CHR 0xBA,
      CHR 0xD1, CHR 0x82, CHR 0xD0, CHR 0xBD, CHR 0xD1, CHR 0x8B, CHR 0xD0, CHR 0xB9]
    @ '' ''
    @ [CHR 0xD0, CHR 0xBE, CHR 0xD1, CHR 0x82, CHR 0xD0, CHR 0xB2, CHR 0xD0, CHR 0xB5,
      CHR 0xD1, CHR 0x82]
    @ '' ''
    @ [CHR 0xD0, CHR 0xBE, CHR 0xD1, CHR 0x82]
    @ '' ''
    @ [CHR 0xD1, CHR 0x81, CHR 0xD0, CHR 0xB5, CHR 0xD1, CHR 0x80, CHR 0xD0, CHR 0xB2,
      CHR 0xD0, CHR 0xB8, CHR 0xD1, CHR 0x81, CHR 0xD0, CHR 0xB0]
    @ '' API.''"

definition msg_not_a_list :: string where
  \<comment> \<open>check_response: The response of the API service has no list of homeworks.\<close>
  "msg_not_a_list =
     [CHR 0xD0, CHR 0x92]
    @ '' ''
    @ [CHR 0xD0, CHR 0xBE, CHR 0xD1, CHR 0x82, CHR 0xD0, CHR 0xB2, CHR 0xD0, CHR 0xB5,
      CHR 0xD1, CHR 0x82, CHR 0xD0, CHR 0xB5]
    @ '' ''
    @ [CHR 0xD1, CHR 0x81, CHR 0xD0, CHR 0xB5, CHR 0xD1, CHR 0x80, CHR 0xD0, CHR 0xB2,
      CHR 0xD0, CHR 0xB8, CHR 0xD1, CHR 0x81, CHR 0xD0, CHR 0xB0]
    @ '' API ''
    @ [CHR 0xD0, CHR 0xBD, CHR 0xD0, CHR 0xB5, CHR 0xD1, CHR 0x82]
    @ '' ''
    @ [CHR 0xD1, CHR 0x81, CHR 0xD0, CHR 0xBF, CHR 0xD0, CHR 0xB8, CHR 0xD1, CHR 0x81,
      CHR 0xD0, CHR 0xBA, CHR 0xD0, CHR 0xB0]
    @ '' ''
    @ [CHR 0xD0, CHR 0xB4, CHR 0xD0, CHR 0xBE, CHR 0xD0, CHR 0xBC, CHR 0xD0, CHR 0xB0,
      CHR 0xD1, CHR 0x88, CHR 0xD0, CHR 0xBD, CHR 0xD0, CHR 0xB8, CHR 0xD1, CHR 0x85]
    @ '' ''
    @ [CHR 0xD1, CHR 0x80, CHR 0xD0, CHR 0xB0, CHR 0xD0, CHR 0xB1, CHR 0xD0, CHR 0xBE,
      CHR 0xD1, CHR 0x82]
    @ ''.''"

definition msg_no_name :: string where
  \<comment> \<open>parse_status: Homework name not found in the API response.\<close>
  "msg_no_name =
     [CHR 0xD0, CHR 0x9D, CHR 0xD0, CHR 0xB5]
    @ '' ''
    @ [CHR 0xD0, CHR 0xBD, CHR 0xD0, CHR 0xB0, CHR 0xD0, CHR 0xB9, CHR 0xD0, CHR 0xB4,
      CHR 0xD0, CHR 0xB5, CHR 0xD0, CHR 0xBD, CHR 0xD0, CHR 0xBE]
    @ '' ''
    @ [CHR 0xD0, CHR 0xB8, CHR 0xD0, CHR 0xBC, CHR 0xD1, CHR 0x8F]
    @ '' ''
    @ [CHR 0xD0, CHR 0xB4, CHR 0xD0, CHR 0xBE, CHR 0xD0, CHR 0xBC, CHR 0xD0, CHR 0xB0,
      CHR 0xD1, CHR 0x88, CHR 0xD0, CHR 0xBD, CHR 0xD0, CHR 0xB5, CHR 0xD0, CHR 0xB9]
    @ '' ''
    @ [CHR 0xD1, CHR 0x80, CHR 0xD0, CHR 0xB0, CHR 0xD0, CHR 0xB1, CHR 0xD0, CHR 0xBE,
      CHR 0xD1, CHR 0x82, CHR 0xD1, CHR 0x8B]
    @ '' ''
    @ [CHR 0xD0, CHR 0xB2]
    @ '' ''
    @ [CHR 0xD0, CHR 0xBE, CHR 0xD1, CHR 0x82, CHR 0xD0, CHR 0xB2, CHR 0xD0, CHR 0xB5,
      CHR 0xD1, CHR 0x82, CHR 0xD0, CHR 0xB5]
    @ '' API.''"

definition msg_no_status :: string where
  \<comment> \<open>parse_status: Homework status not found in the API response.\<close>
  "msg_no_status =
     [CHR 0xD0, CHR 0x9D, CHR 0xD0, CHR 0xB5]
    @ '' ''
    @ [CHR 0xD0, CHR 0xBD, CHR 0xD0, CHR 0xB0, CHR 0xD0, CHR 0xB9, CHR 0xD0, CHR 0xB4,
      CHR 0xD0, CHR 0xB5, CHR 0xD0, CHR 0xBD]
    @ '' ''
    @ [CHR 0xD1, CHR 0x81, CHR 0xD1, CHR 0x82, CHR 0xD0, CHR 0xB0, CHR 0xD1, CHR 0x82,
      CHR 0xD1, CHR 0x83, CHR 0xD1, CHR 0x81]
    @ '' ''
    @ [CHR 0xD0, CHR 0xB4, CHR 0xD0, CHR 0xBE, CHR 0xD0, CHR 0xBC, CHR 0xD0, CHR 0xB0,
      CHR 0xD1, CHR 0x88, CHR 0xD0, CHR 0xBD, CHR 0xD0, CHR 0xB5, CHR 0xD0, CHR 0xB9]
    @ '' ''
    @ [CHR 0xD1, CHR 0x80, CHR 0xD0, CHR 0xB0, CHR 0xD0, CHR 0xB1, CHR 0xD0, CHR 0xBE,
      CHR 0xD1, CHR 0x82, CHR 0xD1, CHR 0x8B]
    @ '' ''
    @ [CHR 0xD0, CHR 0xB2]
    @ '' ''
    @ [CHR 0xD0, CHR 0xBE, CHR 0xD1, CHR 0x82, CHR 0xD0, CHR 0xB2, CHR 0xD0, CHR 0xB5,
      CHR 0xD1, CHR 0x82, CHR 0xD0, CHR 0xB5]
    @ '' API.''"

definition msg_unknown_status :: string where
  \<comment> \<open>parse_status: Undocumented homework status in the API response.\<close>
  "msg_unknown_status =
     [CHR 0xD0, CHR 0x9D, CHR 0xD0, CHR 0xB5, CHR 0xD0, CHR 0xB4, CHR 0xD0, CHR 0xBE,
      CHR 0xD0, CHR 0xBA, CHR 0xD1, CHR 0x83, CHR 0xD0, CHR 0xBC, CHR 0xD0, CHR 0xB5,
      CHR 0xD0, CHR 0xBD, CHR 0xD1, CHR 0x82, CHR 0xD0, CHR 0xB8, CHR 0xD1, CHR 0x80,
      CHR 0xD0, CHR 0xBE, CHR 0xD0, CHR 0xB2, CHR 0xD0, CHR 0xB0, CHR 0xD0, CHR 0xBD,
      CHR 0xD0, CHR 0xBD, CHR 0xD1, CHR 0x8B, CHR 0xD0, CHR 0xB9]
    @ '' ''
    @ [CHR 0xD1, CHR 0x81, CHR 0xD1, CHR 0x82, CHR 0xD0, CHR 0xB0, CHR 0xD1, CHR 0x82,
      CHR 0xD1, CHR 0x83, CHR 0xD1, CHR 0x81]
    @ '' ''
    @ [CHR 0xD0, CHR 0xB4, CHR 0xD0, CHR 0xBE, CHR 0xD0, CHR 0xBC, CHR 0xD0, CHR 0xB0,
      CHR 0xD1, CHR 0x88, CHR 0xD0, CHR 0xBD, CHR 0xD0, CHR 0xB5, CHR 0xD0, CHR 0xB9]
    @ '' ''
    @ [CHR 0xD1, CHR 0x80, CHR 0xD0, CHR 0xB0, CHR 0xD0, CHR 0xB1, CHR 0xD0, CHR 0xBE,
      CHR 0xD1, CHR 0x82, CHR 0xD1, CHR 0x8B]
    @ '' ''
    @ [CHR 0xD0, CHR 0xB2]
    @ '' ''
    @ [CHR 0xD0, CHR 0xBE, CHR 0xD1, CHR 0x82, CHR 0xD0, CHR 0xB2, CHR 0xD0, CHR 0xB5,
      CHR 0xD1, CHR 0x82, CHR 0xD0, CHR 0xB5]
    @ '' API.''"

definition msg_status_changed_prefix :: string where
  \<comment> \<open>parse_status: The review status of the work has changed + opening quote\<close>
  "msg_status_changed_prefix =
     [CHR 0xD0, CHR 0x98, CHR 0xD0, CHR 0xB7, CHR 0xD0, CHR 0xBC, CHR 0xD0, CHR 0xB5,
      CHR 0xD0, CHR 0xBD, CHR 0xD0, CHR 0xB8, CHR 0xD0, CHR 0xBB, CHR 0xD1, CHR 0x81,
      CHR 0xD1, CHR 0x8F]
    @ '' ''
    @ [CHR 0xD1, CHR 0x81, CHR 0xD1, CHR 0x82, CHR 0xD0, CHR 0xB0, CHR 0xD1, CHR 0x82,
      CHR 0xD1, CHR 0x83, CHR 0xD1, CHR 0x81]
    @ '' ''
    @ [CHR 0xD0, CHR 0xBF, CHR 0xD1, CHR 0x80, CHR 0xD0, CHR 0xBE, CHR 0xD0, CHR 0xB2,
      CHR 0xD0, CHR 0xB5, CHR 0xD1, CHR 0x80, CHR 0xD0, CHR 0xBA, CHR 0xD0, CHR 0xB8]
    @ '' ''
    @ [CHR 0xD1, CHR 0x80, CHR 0xD0, CHR 0xB0, CHR 0xD0, CHR 0xB1, CHR 0xD0, CHR 0xBE,
      CHR 0xD1, CHR 0x82, CHR 0xD1, CHR 0x8B]
    @ '' ''
    @ [CHR 0x22]"

definition msg_tokens_unavailable :: string where
  \<comment> \<open>main: One or more environment variables are unavailable.\<close>
  "msg_tokens_unavailable =
     [CHR 0xD0, CHR 0x9D, CHR 0xD0, CHR 0xB5, CHR 0xD0, CHR 0xB4, CHR 0xD0, CHR 0xBE,
      CHR 0xD1, CHR 0x81, CHR 0xD1, CHR 0x82, CHR 0xD1, CHR 0x83, CHR 0xD0, CHR 0xBF,
      CHR 0xD0, CHR 0xBD, CHR 0xD0, CHR 0xB0]
    @ '' ''
    @ [CHR 0xD0, CHR 0xBE, CHR 0xD0, CHR 0xB4, CHR 0xD0, CHR 0xBD, CHR 0xD0, CHR 0xB0]
    @ '' ''
    @ [CHR 0xD0, CHR 0xB8, CHR 0xD0, CHR 0xBB, CHR 0xD0, CHR 0xB8]
    @ '' ''
    @ [CHR 0xD0, CHR 0xBD, CHR 0xD0, CHR 0xB5, CHR 0xD1, CHR 0x81, CHR 0xD0, CHR 0xBA,
      CHR 0xD0, CHR 0xBE, CHR 0xD0, CHR 0xBB, CHR 0xD1, CHR 0x8C, CHR 0xD0, CHR 0xBA,
      CHR 0xD0, CHR 0xBE]
    @ '' ''
    @ [CHR 0xD0, CHR 0xBF, CHR 0xD0, CHR 0xB5, CHR 0xD1, CHR 0x80, CHR 0xD0, CHR 0xB5,
      CHR 0xD0, CHR 0xBC, CHR 0xD0, CHR 0xB5, CHR 0xD0, CHR 0xBD, CHR 0xD0, CHR 0xBD,
      CHR 0xD1, CHR 0x8B, CHR 0xD1, CHR 0x85]
    @ '' ''
    @ [CHR 0xD0, CHR 0xBE, CHR 0xD0, CHR 0xBA, CHR 0xD1, CHR 0x80, CHR 0xD1, CHR 0x83,
      CHR 0xD0, CHR 0xB6, CHR 0xD0, CHR 0xB5, CHR 0xD0, CHR 0xBD, CHR 0xD0, CHR 0xB8,
      CHR 0xD1, CHR 0x8F]
    @ ''.''"

definition msg_exit :: string where
  \<comment> \<open>main: The program has finished.\<close>
  "msg_exit =
     [CHR 0xD0, CHR 0xA0, CHR 0xD0, CHR 0xB0, CHR 0xD0, CHR 0xB1, CHR 0xD0, CHR 0xBE,
      CHR 0xD1, CHR 0x82, CHR 0xD0, CHR 0xB0]
    @ '' ''
    @ [CHR 0xD0, CHR 0xBF, CHR 0xD1, CHR 0x80, CHR 0xD0, CHR 0xBE, CHR 0xD0, CHR 0xB3,
      CHR 0xD1, CHR 0x80, CHR 0xD0, CHR 0xB0, CHR 0xD0, CHR 0xBC, CHR 0xD0, CHR 0xBC,
      CHR 0xD1, CHR 0x8B]
    @ '' ''
    @ [CHR 0xD0, CHR 0xB7, CHR 0xD0, CHR 0xB0, CHR 0xD0, CHR 0xB2, CHR 0xD0, CHR 0xB5,
      CHR 0xD1, CHR 0x80, CHR 0xD1, CHR 0x88, CHR 0xD0, CHR 0xB5, CHR 0xD0, CHR 0xBD,
      CHR 0xD0, CHR 0xB0]
    @ ''.''"

definition msg_no_homework :: string where
  \<comment> \<open>main: No information about the homework was found.\<close>
  "msg_no_homework =
     [CHR 0xD0, CHR 0x9D, CHR 0xD0, CHR 0xB5]
    @ '' ''
    @ [CHR 0xD0, CHR 0xBD, CHR 0xD0, CHR 0xB0, CHR 0xD0, CHR 0xB9, CHR 0xD0, CHR 0xB4,
      CHR 0xD0, CHR 0xB5, CHR 0xD0, CHR 0xBD, CHR 0xD0, CHR 0xBE]
    @ '' ''
    @ [CHR 0xD0, CHR 0xB8, CHR 0xD0, CHR 0xBD, CHR 0xD1, CHR 0x84, CHR 0xD0, CHR 0xBE,
      CHR 0xD1, CHR 0x80, CHR 0xD0, CHR 0xBC, CHR 0xD0, CHR 0xB0, CHR 0xD1, CHR 0x86,
      CHR 0xD0, CHR 0xB8, CHR 0xD0, CHR 0xB8]
    @ '' ''
    @ [CHR 0xD0, CHR 0xBE]
    @ '' ''
    @ [CHR 0xD0, CHR 0xB4, CHR 0xD0, CHR 0xBE, CHR 0xD0, CHR 0xBC, CHR 0xD0, CHR 0xB0,
      CHR 0xD1, CHR 0x88, CHR 0xD0, CHR 0xBD, CHR 0xD0, CHR 0xB5, CHR 0xD0, CHR 0xB9]
    @ '' ''
    @ [CHR 0xD1, CHR 0x80, CHR 0xD0, CHR 0xB0, CHR 0xD0, CHR 0xB1, CHR 0xD0, CHR 0xBE,
      CHR 0xD1, CHR 0x82, CHR 0xD0, CHR 0xB5]
    @ ''.''"

definition msg_not_changed :: string where
  \<comment> \<open>main: The homework status has not changed.\<close>
  "msg_not_changed =
     [CHR 0xD0, CHR 0xA1, CHR 0xD1, CHR 0x82, CHR 0xD0, CHR 0xB0, CHR 0xD1, CHR 0x82,
      CHR 0xD1, CHR 0x83, CHR 0xD1, CHR 0x81]
    @ '' ''
    @ [CHR 0xD0, CHR 0xB4, CHR 0xD0, CHR 0xBE, CHR 0xD0, CHR 0xBC, CHR 0xD0, CHR 0xB0,
      CHR 0xD1, CHR 0x88, CHR 0xD0, CHR 0xBD, CHR 0xD0, CHR 0xB5, CHR 0xD0, CHR 0xB9]
    @ '' ''
    @ [CHR 0xD1, CHR 0x80, CHR 0xD0, CHR 0xB0, CHR 0xD0, CHR 0xB1, CHR 0xD0, CHR 0xBE,
      CHR 0xD1, CHR 0x82, CHR 0xD1, CHR 0x8B]
    @ '' ''
    @ [CHR 0xD0, CHR 0xBD, CHR 0xD0, CHR 0xB5]
    @ '' ''
    @ [CHR 0xD0, CHR 0xB8, CHR 0xD0, CHR 0xB7, CHR 0xD0, CHR 0xBC, CHR 0xD0, CHR 0xB5,
      CHR 0xD0, CHR 0xBD, CHR 0xD0, CHR 0xB8, CHR 0xD0, CHR 0xBB, CHR 0xD1, CHR 0x81,
      CHR 0xD1, CHR 0x8F]
    @ ''.''"

definition msg_program_failure_prefix :: string where
  \<comment> \<open>main: Failure of the program:\<close>
  "msg_program_failure_prefix =
     [CHR 0xD0, CHR 0xA1, CHR 0xD0, CHR 0xB1, CHR 0xD0, CHR 0xBE, CHR 0xD0, CHR 0xB9]
    @ '' ''
    @ [CHR 0xD0, CHR 0xB2]
    @ '' ''
    @ [CHR 0xD1, CHR 0x80, CHR 0xD0, CHR 0xB0, CHR 0xD0, CHR 0xB1, CHR 0xD0, CHR 0xBE,
      CHR 0xD1, CHR 0x82, CHR 0xD0, CHR 0xB5]
    @ '' ''
    @ [CHR 0xD0, CHR 0xBF, CHR 0xD1, CHR 0x80, CHR 0xD0, CHR 0xBE, CHR 0xD0, CHR 0xB3,
      CHR 0xD1, CHR 0x80, CHR 0xD0, CHR 0xB0, CHR 0xD0, CHR 0xBC, CHR 0xD0, CHR 0xBC,
      CHR 0xD1, CHR 0x8B]
    @ '': ''"

definition msg_no_errors :: string where
  \<comment> \<open>main: The program ran without errors.\<close>
  "msg_no_errors =
     [CHR 0xD0, CHR 0x9F, CHR 0xD1, CHR 0x80, CHR 0xD0, CHR 0xBE, CHR 0xD0, CHR 0xB3,
      CHR 0xD1, CHR 0x80, CHR 0xD0, CHR 0xB0, CHR 0xD0, CHR 0xBC, CHR 0xD0, CHR 0xBC,
      CHR 0xD0, CHR 0xB0]
    @ '' ''
    @ [CHR 0xD0, CHR 0xBE, CHR 0xD1, CHR 0x82, CHR 0xD1, CHR 0x80, CHR 0xD0, CHR 0xB0,
      CHR 0xD0, CHR 0xB1, CHR 0xD0, CHR 0xBE, CHR 0xD1, CHR 0x82, CHR 0xD0, CHR 0xB0,
      CHR 0xD0, CHR 0xBB, CHR 0xD0, CHR 0xB0]
    @ '' ''
    @ [CHR 0xD0, CHR 0xB1, CHR 0xD0, CHR 0xB5, CHR 0xD0, CHR 0xB7]
    @ '' ''
    @ [CHR 0xD0, CHR 0xBE, CHR 0xD1, CHR 0x88, CHR 0xD0, CHR 0xB8, CHR 0xD0, CHR 0xB1,
      CHR 0xD0, CHR 0xBE, CHR 0xD0, CHR 0xBA]
    @ ''.''"
definition msg_status_changed_middle :: string where
  "msg_status_changed_middle = dquote @ ''. ''"

definition msg_no_get_suffix :: string where
  "msg_no_get_suffix = quote @ '' object has no attribute '' @ quote @ ''get'' @ quote"

definition msg_unhashable_prefix :: string where
  "msg_unhashable_prefix = ''unhashable type: '' @ quote"

section \<open>The functions of homework.py\<close>

text \<open>
  Every function returns the events it caused, in order, and either the exception it
  raised (\<open>Inl\<close>) or its result (\<open>Inr\<close>).
\<close>

text \<open>
  \<open>send_message(bot, message)\<close>. The argument \<open>bot_reply\<close> is what the call
  \<open>bot.send_message\<close> does. Only a \<open>TelegramError\<close> is converted; any other exception passes
  through unchanged.
\<close>

definition send_message :: "config \<Rightarrow> send_outcome \<Rightarrow> string \<Rightarrow> event list \<times> (exn + unit)" where
  "send_message cfg bot_reply message =
     (case bot_reply of
        SendOk \<Rightarrow>
          ([BotSend (TELEGRAM_CHAT_ID cfg) message bot_reply,
            Log INFO (msg_sent_prefix @ message @ msg_sent_suffix)], Inr ())
      | SendTelegramError error \<Rightarrow>
          ([BotSend (TELEGRAM_CHAT_ID cfg) message bot_reply],
           Inl (SendMessageFailure (msg_send_failure_prefix @ error)))
      | SendOtherError error \<Rightarrow>
          ([BotSend (TELEGRAM_CHAT_ID cfg) message bot_reply], Inl (LibraryError error)))"

text \<open>
  \<open>get_api_answer(current_timestamp)\<close>. The message of \<open>WrongGetApiStatus\<close> ends
  after \<open>msg_status_code_suffix\<close>: the second f-string of the source is a statement of
  its own. The exception is raised inside the first \<open>try\<close>, so it is wrapped into
  \<open>GetApiError\<close> like a failure of the request.
\<close>

definition get_api_answer :: "config \<Rightarrow> cycle_env \<Rightarrow> pyval \<Rightarrow> event list \<times> (exn + pyval)" where
  "get_api_answer cfg env current_timestamp =
     (let timestamp = (if truthy current_timestamp then current_timestamp
                       else PInt (time_now env));
          request = HttpGet (ENDPOINT cfg) (HEADERS cfg) timestamp
      in case http env of
           RequestRaises error \<Rightarrow>
             ([request], Inl (GetApiError (msg_api_failure_prefix @ error)))
         | Response status_code body \<Rightarrow>
             if status_code \<noteq> 200 then
               (let message = msg_status_code_prefix @ fstr cfg (ENDPOINT cfg)
                                @ msg_status_code_suffix
                in ([request, Log ERROR message],
                    Inl (GetApiError (msg_api_failure_prefix
                           @ exn_str (WrongGetApiStatus message)))))
             else
               (case body of
                  JsonValue response \<Rightarrow> ([request], Inr response)
                | JsonDecodeError \<Rightarrow> ([request, Log ERROR jsn_message], Inr PNone)
                | JsonOtherError error \<Rightarrow> ([request], Inl (LibraryError error))))"

text \<open>\<open>check_response(response)\<close>.\<close>

definition check_response :: "pyval \<Rightarrow> exn + pyval list" where
  "check_response response =
     (if response = PNone then Inl (EmptyResponse msg_empty_response)
      else case response of
             PDict d \<Rightarrow>
               if map_of d ''homeworks'' = None \<or> map_of d ''current_date'' = None
               then Inl (IncorrectApiAnswer msg_incorrect_answer)
               else (case map_of d ''homeworks'' of
                       Some (PList homeworks_list) \<Rightarrow> Inr homeworks_list
                     | _ \<Rightarrow> Inl (PyTypeError msg_not_a_list))
           | _ \<Rightarrow> Inl (PyTypeError msg_not_a_dict))"

text \<open>
  \<open>HOMEWORK_STATUSES.get(homework_status)\<close>: the keys are strings, so a key of another
  hashable type is not found, and a list or dict cannot be hashed.
\<close>

definition statuses_get :: "(string \<times> string) list \<Rightarrow> pyval \<Rightarrow> exn + string option" where
  "statuses_get statuses key =
     (case key of
        PStr s \<Rightarrow> Inr (map_of statuses s)
      | PList xs \<Rightarrow> Inl (PyTypeError (msg_unhashable_prefix @ ''list'' @ quote))
      | PDict kvs \<Rightarrow> Inl (PyTypeError (msg_unhashable_prefix @ ''dict'' @ quote))
      | _ \<Rightarrow> Inr None)"

text \<open>
  \<open>parse_status(homework)\<close>. A homework that is not a dict has no method \<open>get\<close>.
\<close>

definition parse_status :: "config \<Rightarrow> pyval \<Rightarrow> event list \<times> (exn + string)" where
  "parse_status cfg homework =
     (case homework of
        PDict h \<Rightarrow>
          (let homework_name = dict_get h ''homework_name'';
               homework_status = dict_get h ''status''
           in if map_of h ''homework_name'' = None
              then ([Log ERROR msg_no_name], Inl (PyKeyError msg_no_name))
              else if map_of h ''status'' = None
              then ([Log ERROR msg_no_status], Inl (PyKeyError msg_no_status))
              else (case statuses_get (HOMEWORK_STATUSES cfg) homework_status of
                      Inl error \<Rightarrow> ([], Inl error)
                    | Inr None \<Rightarrow>
                        ([Log ERROR msg_unknown_status], Inl (PyKeyError msg_unknown_status))
                    | Inr (Some verdict) \<Rightarrow>
                        ([], Inr (msg_status_changed_prefix @ fstr cfg homework_name
                                    @ msg_status_changed_middle @ verdict))))
      | _ \<Rightarrow> ([], Inl (PyAttributeError (quote @ type_name homework @ msg_no_get_suffix))))"

text \<open>\<open>check_tokens()\<close>.\<close>

definition check_tokens :: "config \<Rightarrow> bool" where
  "check_tokens cfg =
     list_all truthy [PRACTICUM_TOKEN cfg, TELEGRAM_TOKEN cfg, TELEGRAM_CHAT_ID cfg]"

section \<open>The poll loop of main\<close>

text \<open>The local variables of \<open>main\<close> that live across cycles.\<close>

record poll_state =
  current_timestamp :: pyval
  last_message :: "string option"
  last_error :: "string option"

text \<open>
  The body of the \<open>try\<close> block of one cycle: the events, and either the exception that
  left the block or the state after its last statement.
\<close>

definition try_body :: "config \<Rightarrow> cycle_env \<Rightarrow> poll_state \<Rightarrow> event list \<times> (exn + poll_state)" where
  "try_body cfg env st =
     (case get_api_answer cfg env (current_timestamp st) of
        (tr1, Inl error) \<Rightarrow> (tr1, Inl error)
      | (tr1, Inr response) \<Rightarrow>
          (case check_response response of
             Inl error \<Rightarrow> (tr1, Inl error)
           | Inr [] \<Rightarrow>
               (tr1 @ [Log INFO msg_no_homework], Inl (NoHomeworkInfo msg_no_homework))
           | Inr (homework # rest) \<Rightarrow>
               (case parse_status cfg homework of
                  (tr2, Inl error) \<Rightarrow> (tr1 @ tr2, Inl error)
                | (tr2, Inr status_str) \<Rightarrow>
                    if Some status_str \<noteq> last_message st then
                      (case send_message cfg (send_try env) status_str of
                         (tr3, Inl error) \<Rightarrow> (tr1 @ tr2 @ tr3, Inl error)
                       | (tr3, Inr u) \<Rightarrow>
                           (tr1 @ tr2 @ tr3,
                            Inr (st\<lparr>last_message := Some status_str,
                                    current_timestamp :=
                                      (case response of PDict d \<Rightarrow> dict_get d ''current_date''
                                       | _ \<Rightarrow> PNone)\<rparr>)))
                    else
                      (tr1 @ tr2 @ [Log DEBUG msg_not_changed],
                       Inr (st\<lparr>current_timestamp :=
                                 (case response of PDict d \<Rightarrow> dict_get d ''current_date''
                                  | _ \<Rightarrow> PNone)\<rparr>)))))"

text \<open>
  One cycle: \<open>try\<close>, \<open>except Exception\<close>, \<open>else\<close>, \<open>finally\<close>. The middle component is
  the exception that leaves the cycle, and with it the \<open>while\<close> loop, if there is one:
  the handler calls \<open>send_message\<close> outside any \<open>try\<close>.
\<close>

definition cycle :: "config \<Rightarrow> cycle_env \<Rightarrow> poll_state \<Rightarrow> event list \<times> exn option \<times> poll_state" where
  "cycle cfg env st =
     (case try_body cfg env st of
        (tr1, Inr st') \<Rightarrow>
          (tr1 @ [Log INFO msg_no_errors, Sleep (RETRY_TIME cfg)], None, st')
      | (tr1, Inl error) \<Rightarrow>
          (let message = msg_program_failure_prefix @ exn_str error
           in if Some message \<noteq> last_error st then
                (case send_message cfg (send_handler env) message of
                   (tr2, Inl error') \<Rightarrow>
                     (tr1 @ [Log ERROR message] @ tr2 @ [Sleep (RETRY_TIME cfg)],
                      Some error', st)
                 | (tr2, Inr u) \<Rightarrow>
                     (tr1 @ [Log ERROR message] @ tr2 @ [Sleep (RETRY_TIME cfg)],
                      None, st\<lparr>last_error := Some message\<rparr>))
              else (tr1 @ [Log ERROR message, Sleep (RETRY_TIME cfg)], None, st)))"

text \<open>
  \<open>while True\<close>, run on the answers of the outside world for finitely many cycles. The
  result \<open>None\<close> says that the loop is still running after them, \<open>Some error\<close> that the
  exception left the loop during the last cycle that ran.
\<close>

fun poll_loop :: "config \<Rightarrow> cycle_env list \<Rightarrow> poll_state \<Rightarrow> event list \<times> exn option \<times> poll_state" where
  "poll_loop cfg [] st = ([], None, st)"
| "poll_loop cfg (env # envs) st =
     (case cycle cfg env st of
        (tr, Some error, st') \<Rightarrow> (tr, Some error, st')
      | (tr, None, st') \<Rightarrow>
          (case poll_loop cfg envs st' of (tr', r, st'') \<Rightarrow> (tr @ tr', r, st'')))"

text \<open>
  \<open>main()\<close>, with the time read at startup. It ends by \<open>sys.exit\<close>, by an exception
  that nothing catches, or it is still in the loop after the cycles supplied.
\<close>

datatype outcome =
    SystemExit string "event list"
  | Uncaught exn "event list"
  | Running poll_state "event list"

definition main :: "config \<Rightarrow> int \<Rightarrow> cycle_env list \<Rightarrow> outcome" where
  "main cfg start_time envs =
     (if \<not> check_tokens cfg
      then SystemExit msg_exit [Log CRITICAL msg_tokens_unavailable]
      else (case poll_loop cfg envs
                   \<lparr>current_timestamp = PInt start_time, last_message = None,
                    last_error = None\<rparr> of
              (tr, Some error, st) \<Rightarrow> Uncaught error tr
            | (tr, None, st) \<Rightarrow> Running st tr))"

section \<open>Notions used by the properties\<close>

text \<open>The calls of \<open>bot.send_message\<close> with a given text among the events.\<close>

fun is_send :: "string \<Rightarrow> event \<Rightarrow> bool" where
  "is_send m (BotSend chat m' r) = (m' = m)"
| "is_send m (Log l t) = False"
| "is_send m (HttpGet e h p) = False"
| "is_send m (Sleep n) = False"

definition sends_of :: "string \<Rightarrow> event list \<Rightarrow> nat" where
  "sends_of m tr = length (filter (is_send m) tr)"

text \<open>The GET requests among the events: endpoint, headers and \<open>from_date\<close>.\<close>

fun requests_of :: "event list \<Rightarrow> (pyval \<times> pyval \<times> pyval) list" where
  "requests_of [] = []"
| "requests_of (HttpGet e h p # tr) = (e, h, p) # requests_of tr"
| "requests_of (BotSend c m r # tr) = requests_of tr"
| "requests_of (Log l t # tr) = requests_of tr"
| "requests_of (Sleep n # tr) = requests_of tr"

text \<open>
  The status message a cycle formats (lines 122 to 130 of \<open>main\<close>), if it gets that
  far, and the error message its handler builds, if the \<open>try\<close> block raised.
\<close>

definition formatted_status :: "config \<Rightarrow> cycle_env \<Rightarrow> poll_state \<Rightarrow> string option" where
  "formatted_status cfg env st =
     (case snd (get_api_answer cfg env (current_timestamp st)) of
        Inl error \<Rightarrow> None
      | Inr response \<Rightarrow>
          (case check_response response of
             Inr (homework # rest) \<Rightarrow>
               (case snd (parse_status cfg homework) of
                  Inl error \<Rightarrow> None
                | Inr status_str \<Rightarrow> Some status_str)
           | _ \<Rightarrow> None))"

definition error_message :: "config \<Rightarrow> cycle_env \<Rightarrow> poll_state \<Rightarrow> string option" where
  "error_message cfg env st =
     (case snd (try_body cfg env st) of
        Inl error \<Rightarrow> Some (msg_program_failure_prefix @ exn_str error)
      | Inr st' \<Rightarrow> None)"

definition state_after :: "config \<Rightarrow> cycle_env \<Rightarrow> poll_state \<Rightarrow> poll_state" where
  "state_after cfg env st = snd (snd (cycle cfg env st))"

section \<open>Concrete inputs\<close>

definition example_cfg :: config where
  "example_cfg =
     \<lparr>PRACTICUM_TOKEN = PStr ''practicum'', TELEGRAM_TOKEN = PStr ''telegram'',
      TELEGRAM_CHAT_ID = PInt 1, ENDPOINT = PStr ''https://example.org/api/'',
      HEADERS = PDict [(''Authorization'', PStr ''OAuth practicum'')],
      HOMEWORK_STATUSES = [(''approved'', ''Great job!'')], RETRY_TIME = 600,
      str_other = (\<lambda>v. ''?'')\<rparr>"

definition cfg_no_endpoint :: config where
  "cfg_no_endpoint = example_cfg\<lparr>ENDPOINT := PNone, HEADERS := PNone\<rparr>"

definition cfg_no_api_token :: config where
  "cfg_no_api_token = example_cfg\<lparr>PRACTICUM_TOKEN := PNone\<rparr>"

definition example_homework :: pyval where
  "example_homework = PDict [(''homework_name'', PStr ''proj1''), (''status'', PStr ''approved'')]"

definition example_response :: pyval where
  "example_response =
     PDict [(''homeworks'', PList [example_homework]), (''current_date'', PInt 1000)]"

definition empty_response :: pyval where
  "empty_response = PDict [(''homeworks'', PList []), (''current_date'', PInt 1000)]"

definition example_status :: string where
  "example_status =
     msg_status_changed_prefix @ ''proj1'' @ msg_status_changed_middle @ ''Great job!''"

definition english_status :: string where
  "english_status =
     ''Changed review status of work '' @ dquote @ ''proj1'' @ dquote @ ''. Great job!''"

definition send_failure_message :: string where
  "send_failure_message = msg_program_failure_prefix @ msg_send_failure_prefix @ ''down''"

definition st_start :: poll_state where
  "st_start = \<lparr>current_timestamp = PInt 500, last_message = None, last_error = None\<rparr>"

definition env_ok :: cycle_env where
  "env_ok = \<lparr>time_now = 1700000000, http = Response 200 (JsonValue example_response),
             send_try = SendOk, send_handler = SendOk\<rparr>"

definition env_send_fails :: cycle_env where
  "env_send_fails = env_ok\<lparr>send_try := SendTelegramError ''down''\<rparr>"

definition env_telegram_down :: cycle_env where
  "env_telegram_down =
     env_ok\<lparr>send_try := SendTelegramError ''down'', send_handler := SendTelegramError ''down''\<rparr>"

definition env_empty :: cycle_env where
  "env_empty = env_ok\<lparr>http := Response 200 (JsonValue empty_response)\<rparr>"

definition env_bad_json :: cycle_env where
  "env_bad_json = env_ok\<lparr>http := Response 200 JsonDecodeError\<rparr>"

definition env_invalid_url :: cycle_env where
  "env_invalid_url = env_ok\<lparr>http := RequestRaises ''Invalid URL''\<rparr>"

section \<open>Facts about the single functions\<close>

lemma sends_of_append [simp]: "sends_of m (a @ b) = sends_of m a + sends_of m b"
  by (simp add: sends_of_def)

lemma sends_of_simps [simp]:
  "sends_of m [] = 0"
  "sends_of m (BotSend c m' r # tr) = (if m' = m then 1 else 0) + sends_of m tr"
  "sends_of m (Log l t # tr) = sends_of m tr"
  "sends_of m (HttpGet e h p # tr) = sends_of m tr"
  "sends_of m (Sleep n # tr) = sends_of m tr"
  by (simp_all add: sends_of_def)

lemma get_api_answer_no_send: "get_api_answer cfg env ts = (tr, r) \<Longrightarrow> sends_of m tr = 0"
  by (auto simp add: get_api_answer_def Let_def
        split: http_outcome.splits json_outcome.splits if_splits)

lemma parse_status_no_send: "parse_status cfg hw = (tr, r) \<Longrightarrow> sends_of m tr = 0"
  by (auto simp add: parse_status_def Let_def
        split: pyval.splits sum.splits option.splits if_splits)

lemma send_message_sends:
  "send_message cfg r m' = (tr, x) \<Longrightarrow> sends_of m tr = (if m' = m then 1 else 0)"
  by (auto simp add: send_message_def split: send_outcome.splits)

lemma send_message_Inr: "send_message cfg r m = (tr, Inr u) \<Longrightarrow> r = SendOk"
  by (simp add: send_message_def split: send_outcome.splits)

lemma send_message_Inl: "send_message cfg r m = (tr, Inl e) \<Longrightarrow> r \<noteq> SendOk"
  by (auto simp add: send_message_def split: send_outcome.splits)



text \<open>The two kinds of notification never have the same text: their first words differ.\<close>

lemma status_not_failure: "msg_status_changed_prefix @ x \<noteq> msg_program_failure_prefix @ y"
  by (simp add: msg_status_changed_prefix_def msg_program_failure_prefix_def)

lemma parse_status_prefix:
  "snd (parse_status cfg hw) = Inr s \<Longrightarrow> \<exists>x. s = msg_status_changed_prefix @ x"
  by (auto simp add: parse_status_def Let_def
        split: pyval.splits sum.splits option.splits if_splits)

lemma formatted_status_prefix:
  "formatted_status cfg env st = Some s \<Longrightarrow> \<exists>x. s = msg_status_changed_prefix @ x"
  by (auto simp add: formatted_status_def split: sum.splits list.splits
        dest: parse_status_prefix)

lemma error_message_prefix:
  "error_message cfg env st = Some s \<Longrightarrow> \<exists>x. s = msg_program_failure_prefix @ x"
  by (auto simp add: error_message_def split: sum.splits)

lemma status_not_error:
  "formatted_status cfg env st = Some m \<Longrightarrow> error_message cfg env' st' \<noteq> Some m"
  using formatted_status_prefix error_message_prefix status_not_failure by metis

section \<open>Facts about one cycle\<close>

lemma try_body_sends:
  "sends_of m (fst (try_body cfg env st)) =
     (if formatted_status cfg env st = Some m \<and> Some m \<noteq> last_message st then 1 else 0)"
  by (auto simp add: try_body_def formatted_status_def get_api_answer_no_send
        parse_status_no_send send_message_sends split: prod.splits sum.splits list.splits)

lemma cycle_sends:
  "sends_of m (fst (cycle cfg env st)) =
     sends_of m (fst (try_body cfg env st))
       + (if error_message cfg env st = Some m \<and> Some m \<noteq> last_error st then 1 else 0)"
  by (auto simp add: cycle_def error_message_def Let_def send_message_sends
        split: prod.splits sum.splits)

lemma try_body_last_error:
  "try_body cfg env st = (tr, Inr st') \<Longrightarrow> last_error st' = last_error st"
  by (auto simp add: try_body_def split: prod.splits sum.splits list.splits if_splits)

lemma cycle_last_message:
  "last_message (state_after cfg env st) =
     (case formatted_status cfg env st of
        None \<Rightarrow> last_message st
      | Some m \<Rightarrow> if send_try env = SendOk then Some m else last_message st)"
  by (auto simp add: state_after_def cycle_def try_body_def formatted_status_def Let_def
        split: prod.splits sum.splits list.splits if_splits
        dest: send_message_Inr send_message_Inl)

lemma cycle_last_error:
  "last_error (state_after cfg env st) =
     (case error_message cfg env st of
        None \<Rightarrow> last_error st
      | Some m \<Rightarrow> if send_handler env = SendOk then Some m else last_error st)"
  by (auto simp add: state_after_def cycle_def error_message_def Let_def
        split: prod.splits sum.splits if_splits
        dest: send_message_Inr send_message_Inl try_body_last_error)

text \<open>
  A cycle leaves the loop exactly when its handler has a new error message to send and
  the send fails.
\<close>

lemma cycle_continues:
  "fst (snd (cycle cfg env st)) = None \<longleftrightarrow>
     (\<forall>m. error_message cfg env st = Some m \<longrightarrow>
          Some m = last_error st \<or> send_handler env = SendOk)"
  by (auto simp add: cycle_def error_message_def Let_def
        split: prod.splits sum.splits if_splits
        dest: send_message_Inr send_message_Inl)

text \<open>The log line of the \<open>else\<close> branch is written nowhere else.\<close>

lemma no_errors_not_no_homework: "msg_no_errors \<noteq> msg_no_homework"
  by (simp add: msg_no_errors_def msg_no_homework_def)

lemma no_errors_not_sent: "msg_no_errors \<noteq> msg_sent_prefix @ x"
  by (simp add: msg_no_errors_def msg_sent_prefix_def)

lemma get_api_answer_no_clean_log:
  "get_api_answer cfg env ts = (tr, r) \<Longrightarrow> Log INFO msg_no_errors \<notin> set tr"
  by (auto simp add: get_api_answer_def Let_def
        split: http_outcome.splits json_outcome.splits if_splits)

lemma parse_status_no_clean_log:
  "parse_status cfg hw = (tr, r) \<Longrightarrow> Log INFO msg_no_errors \<notin> set tr"
  by (auto simp add: parse_status_def Let_def
        split: pyval.splits sum.splits option.splits if_splits)

lemma send_message_no_clean_log:
  "send_message cfg r m = (tr, x) \<Longrightarrow> Log INFO msg_no_errors \<notin> set tr"
  by (auto simp add: send_message_def no_errors_not_sent split: send_outcome.splits)

lemma try_body_no_clean_log: "Log INFO msg_no_errors \<notin> set (fst (try_body cfg env st))"
  by (auto simp add: try_body_def no_errors_not_no_homework
        split: prod.splits sum.splits list.splits if_splits
        dest: get_api_answer_no_clean_log parse_status_no_clean_log send_message_no_clean_log)

lemma cycle_timestamp_after_exception:
  "try_body cfg env st = (tr, Inl error)
   \<Longrightarrow> current_timestamp (snd (snd (cycle cfg env st))) = current_timestamp st"
  by (auto simp add: cycle_def Let_def split: prod.splits sum.splits)




section \<open>The example cycles, evaluated\<close>

lemmas example_defs =
  example_cfg_def example_homework_def example_response_def empty_response_def
  example_status_def st_start_def env_ok_def env_send_fails_def env_telegram_down_def
  env_empty_def env_bad_json_def env_invalid_url_def cfg_no_endpoint_def cfg_no_api_token_def
  send_failure_message_def

lemmas function_defs =
  get_api_answer_def check_response_def parse_status_def statuses_get_def dict_get_def
  fstr_def send_message_def try_body_def cycle_def

lemma parse_status_example:
  "parse_status example_cfg example_homework = ([], Inr example_status)"
  by (simp add: example_defs function_defs)

lemma try_body_ok:
  "try_body example_cfg env_ok st_start =
     ([HttpGet (ENDPOINT example_cfg) (HEADERS example_cfg) (PInt 500),
       BotSend (PInt 1) example_status SendOk,
       Log INFO (msg_sent_prefix @ example_status @ msg_sent_suffix)],
      Inr \<lparr>current_timestamp = PInt 1000, last_message = Some example_status,
           last_error = None\<rparr>)"
  by (simp add: example_defs function_defs)

lemma cycle_ok:
  "cycle example_cfg env_ok st_start =
     ([HttpGet (ENDPOINT example_cfg) (HEADERS example_cfg) (PInt 500),
       BotSend (PInt 1) example_status SendOk,
       Log INFO (msg_sent_prefix @ example_status @ msg_sent_suffix),
       Log INFO msg_no_errors, Sleep 600],
      None,
      \<lparr>current_timestamp = PInt 1000, last_message = Some example_status,
        last_error = None\<rparr>)"
  by (simp add: cycle_def Let_def try_body_ok) (simp add: example_cfg_def)

lemma try_body_send_fails:
  "try_body example_cfg env_send_fails st_start =
     ([HttpGet (ENDPOINT example_cfg) (HEADERS example_cfg) (PInt 500),
       BotSend (PInt 1) example_status (SendTelegramError ''down'')],
      Inl (SendMessageFailure (msg_send_failure_prefix @ ''down'')))"
  by (simp add: example_defs function_defs)

lemma cycle_send_fails:
  "cycle example_cfg env_send_fails st_start =
     ([HttpGet (ENDPOINT example_cfg) (HEADERS example_cfg) (PInt 500),
       BotSend (PInt 1) example_status (SendTelegramError ''down''),
       Log ERROR send_failure_message,
       BotSend (PInt 1) send_failure_message SendOk,
       Log INFO (msg_sent_prefix @ send_failure_message @ msg_sent_suffix),
       Sleep 600],
      None,
      st_start\<lparr>last_error := Some send_failure_message\<rparr>)"
  by (simp add: cycle_def Let_def try_body_send_fails)
     (simp add: example_defs send_message_def Let_def)

lemma try_body_after_send_fails:
  "try_body example_cfg env_ok (st_start\<lparr>last_error := Some send_failure_message\<rparr>) =
     ([HttpGet (ENDPOINT example_cfg) (HEADERS example_cfg) (PInt 500),
       BotSend (PInt 1) example_status SendOk,
       Log INFO (msg_sent_prefix @ example_status @ msg_sent_suffix)],
      Inr \<lparr>current_timestamp = PInt 1000, last_message = Some example_status,
           last_error = Some send_failure_message\<rparr>)"
  by (simp add: example_defs function_defs)

lemma try_body_telegram_down:
  "try_body example_cfg env_telegram_down st_start =
     ([HttpGet (ENDPOINT example_cfg) (HEADERS example_cfg) (PInt 500),
       BotSend (PInt 1) example_status (SendTelegramError ''down'')],
      Inl (SendMessageFailure (msg_send_failure_prefix @ ''down'')))"
  by (simp add: example_defs function_defs)

lemma cycle_telegram_down:
  "cycle example_cfg env_telegram_down st_start =
     ([HttpGet (ENDPOINT example_cfg) (HEADERS example_cfg) (PInt 500),
       BotSend (PInt 1) example_status (SendTelegramError ''down''),
       Log ERROR send_failure_message,
       BotSend (PInt 1) send_failure_message (SendTelegramError ''down''),
       Sleep 600],
      Some (SendMessageFailure (msg_send_failure_prefix @ ''down'')),
      st_start)"
  by (simp add: cycle_def Let_def try_body_telegram_down)
     (simp add: example_defs send_message_def Let_def)

lemma try_body_empty:
  "try_body example_cfg env_empty st_start =
     ([HttpGet (ENDPOINT example_cfg) (HEADERS example_cfg) (PInt 500),
       Log INFO msg_no_homework],
      Inl (NoHomeworkInfo msg_no_homework))"
  by (simp add: example_defs function_defs)

lemma cycle_empty:
  "cycle example_cfg env_empty st_start =
     ([HttpGet (ENDPOINT example_cfg) (HEADERS example_cfg) (PInt 500),
       Log INFO msg_no_homework,
       Log ERROR (msg_program_failure_prefix @ msg_no_homework),
       BotSend (PInt 1) (msg_program_failure_prefix @ msg_no_homework) SendOk,
       Log INFO (msg_sent_prefix @ (msg_program_failure_prefix @ msg_no_homework)
                   @ msg_sent_suffix),
       Sleep 600],
      None,
      st_start\<lparr>last_error := Some (msg_program_failure_prefix @ msg_no_homework)\<rparr>)"
  by (simp add: cycle_def Let_def try_body_empty)
     (simp add: example_defs send_message_def Let_def)

lemma example_status_not_failure: "example_status \<noteq> send_failure_message"
  unfolding example_status_def send_failure_message_def by (rule status_not_failure)

lemma formatted_status_ok: "formatted_status example_cfg env_ok st = Some example_status"
  by (simp add: formatted_status_def example_defs function_defs Let_def)

lemma formatted_status_send_fails:
  "formatted_status example_cfg env_send_fails st = Some example_status"
  by (simp add: formatted_status_def example_defs function_defs Let_def)

lemma snd_try_body_empty:
  "snd (try_body example_cfg env_empty st) = Inl (NoHomeworkInfo msg_no_homework)"
  by (simp add: example_defs function_defs Let_def)

lemma error_message_empty:
  "error_message example_cfg env_empty st = Some (msg_program_failure_prefix @ msg_no_homework)"
  by (simp add: error_message_def snd_try_body_empty)


lemma cycle_after_send_fails:
  "cycle example_cfg env_ok (st_start\<lparr>last_error := Some send_failure_message\<rparr>) =
     ([HttpGet (ENDPOINT example_cfg) (HEADERS example_cfg) (PInt 500),
       BotSend (PInt 1) example_status SendOk,
       Log INFO (msg_sent_prefix @ example_status @ msg_sent_suffix),
       Log INFO msg_no_errors, Sleep 600],
      None,
      \<lparr>current_timestamp = PInt 1000, last_message = Some example_status,
        last_error = Some send_failure_message\<rparr>)"
  by (simp add: cycle_def Let_def try_body_after_send_fails) (simp add: example_cfg_def)

lemma cycle_invalid_url:
  "cycle cfg_no_endpoint env_invalid_url st_start =
     ([HttpGet PNone PNone (PInt 500),
       Log ERROR (msg_program_failure_prefix @ msg_api_failure_prefix @ ''Invalid URL''),
       BotSend (PInt 1) (msg_program_failure_prefix @ msg_api_failure_prefix @ ''Invalid URL'')
         SendOk,
       Log INFO (msg_sent_prefix
                   @ (msg_program_failure_prefix @ msg_api_failure_prefix @ ''Invalid URL'')
                   @ msg_sent_suffix),
       Sleep 600],
      None,
      st_start\<lparr>last_error :=
                 Some (msg_program_failure_prefix @ msg_api_failure_prefix @ ''Invalid URL'')\<rparr>)"
  by (simp add: example_defs function_defs Let_def)

lemma check_tokens_example: "check_tokens example_cfg"
  by (simp add: check_tokens_def example_cfg_def)

lemma check_tokens_no_endpoint: "check_tokens cfg_no_endpoint"
  by (simp add: check_tokens_def example_defs)

section \<open>The poll loop and cycle errors\<close>

text \<open>
  C1. The claim: every exception of a cycle is caught inside the loop, also when sending
  the status or error notification fails, so that only the startup check ends the
  program. The code breaks it: with Telegram down, the status notification fails, the
  handler catches that and tries to send the error text, this second \<open>send_message\<close>
  raises \<open>SendMessageFailure\<close> inside the handler, and after the sleep the exception
  leaves \<open>while True\<close> and \<open>main\<close>; the second cycle never runs.
\<close>

theorem main_ends_when_error_notification_fails:
  "main example_cfg 500 [env_telegram_down, env_ok] =
     Uncaught (SendMessageFailure (msg_send_failure_prefix @ ''down''))
       [HttpGet (ENDPOINT example_cfg) (HEADERS example_cfg) (PInt 500),
        BotSend (PInt 1) example_status (SendTelegramError ''down''),
        Log ERROR send_failure_message,
        BotSend (PInt 1) send_failure_message (SendTelegramError ''down''),
        Sleep 600]"
  using cycle_telegram_down check_tokens_example
  by (simp add: main_def st_start_def)

section \<open>Deduplication\<close>

text \<open>
  C2, as stated: two consecutive cycles that format the same message call the notifier
  at most once for it. It fails when the first send raises: the status text is not
  recorded, the handler reports the failure, and the next cycle sends the same status
  text again, two calls for one message.
\<close>

theorem same_status_sent_twice_after_failed_send:
  "formatted_status example_cfg env_send_fails st_start = Some example_status
   \<and> fst (snd (cycle example_cfg env_send_fails st_start)) = None
   \<and> formatted_status example_cfg env_ok (state_after example_cfg env_send_fails st_start)
       = Some example_status
   \<and> sends_of example_status
        (fst (cycle example_cfg env_send_fails st_start)
         @ fst (cycle example_cfg env_ok (state_after example_cfg env_send_fails st_start)))
       = 2"
  using example_status_not_failure
  by (simp add: formatted_status_ok formatted_status_send_fails state_after_def
        cycle_send_fails cycle_after_send_fails)

text \<open>
  C2, amended: for two consecutive cycles that produce the same message in the same
  category, the notifier is called at most once for that message across both cycles,
  provided the send of the first cycle did not fail. For a status message this is the
  hypothesis that the first cycle's status send succeeds; for an error message the first
  cycle is followed by a second one only if its error send did not fail.
\<close>

theorem consecutive_cycles_dedup:
  assumes "fst (snd (cycle cfg env1 st)) = None"
    and "(formatted_status cfg env1 st = Some m
            \<and> formatted_status cfg env2 (state_after cfg env1 st) = Some m
            \<and> send_try env1 = SendOk)
         \<or> (error_message cfg env1 st = Some m
            \<and> error_message cfg env2 (state_after cfg env1 st) = Some m)"
  shows "sends_of m (fst (cycle cfg env1 st) @ fst (cycle cfg env2 (state_after cfg env1 st)))
           \<le> 1"
  using assms(2)
proof
  assume a: "formatted_status cfg env1 st = Some m
            \<and> formatted_status cfg env2 (state_after cfg env1 st) = Some m
            \<and> send_try env1 = SendOk"
  then have lm: "last_message (state_after cfg env1 st) = Some m"
    by (simp add: cycle_last_message)
  have e1: "error_message cfg env1 st \<noteq> Some m"
    using a status_not_error by blast
  have e2: "error_message cfg env2 (state_after cfg env1 st) \<noteq> Some m"
    using a status_not_error by blast
  show ?thesis
    using a lm e1 e2 by (simp add: cycle_sends try_body_sends)
next
  assume a: "error_message cfg env1 st = Some m
            \<and> error_message cfg env2 (state_after cfg env1 st) = Some m"
  have f1: "formatted_status cfg env1 st \<noteq> Some m"
    using a status_not_error by blast
  have f2: "formatted_status cfg env2 (state_after cfg env1 st) \<noteq> Some m"
    using a status_not_error by blast
  have le: "last_error (state_after cfg env1 st) = Some m"
    using a assms(1) by (auto simp add: cycle_last_error cycle_continues)
  show ?thesis
    using a f1 f2 le by (simp add: cycle_sends try_body_sends)
qed

theorem consecutive_cycles_dedup_witness:
  "fst (snd (cycle example_cfg env_ok st_start)) = None
   \<and> formatted_status example_cfg env_ok st_start = Some example_status
   \<and> formatted_status example_cfg env_ok (state_after example_cfg env_ok st_start)
       = Some example_status
   \<and> send_try env_ok = SendOk
   \<and> sends_of example_status
        (fst (cycle example_cfg env_ok st_start)
         @ fst (cycle example_cfg env_ok (state_after example_cfg env_ok st_start))) \<le> 1
   \<and> fst (snd (cycle example_cfg env_empty st_start)) = None
   \<and> error_message example_cfg env_empty st_start
       = Some (msg_program_failure_prefix @ msg_no_homework)
   \<and> error_message example_cfg env_empty (state_after example_cfg env_empty st_start)
       = Some (msg_program_failure_prefix @ msg_no_homework)
   \<and> sends_of (msg_program_failure_prefix @ msg_no_homework)
        (fst (cycle example_cfg env_empty st_start)
         @ fst (cycle example_cfg env_empty (state_after example_cfg env_empty st_start)))
       \<le> 1"
proof -
  have c1: "fst (snd (cycle example_cfg env_ok st_start)) = None"
    by (simp add: cycle_ok)
  have s1: "send_try env_ok = SendOk"
    by (simp add: env_ok_def)
  have c2: "fst (snd (cycle example_cfg env_empty st_start)) = None"
    by (simp add: cycle_empty)
  have d1: "sends_of example_status
        (fst (cycle example_cfg env_ok st_start)
         @ fst (cycle example_cfg env_ok (state_after example_cfg env_ok st_start))) \<le> 1"
    using consecutive_cycles_dedup [of example_cfg env_ok st_start example_status env_ok]
      c1 s1 formatted_status_ok by blast
  have d2: "sends_of (msg_program_failure_prefix @ msg_no_homework)
        (fst (cycle example_cfg env_empty st_start)
         @ fst (cycle example_cfg env_empty (state_after example_cfg env_empty st_start)))
       \<le> 1"
    using consecutive_cycles_dedup [of example_cfg env_empty st_start
        "msg_program_failure_prefix @ msg_no_homework" env_empty]
      c2 error_message_empty by blast
  show ?thesis
    using c1 s1 c2 d1 d2 formatted_status_ok error_message_empty by blast
qed

section \<open>Startup check\<close>

text \<open>
  C3, as stated: if any of four settings, the endpoint and headers among them, is absent,
  the program exits before the loop and makes no network call. It fails for the fourth:
  \<open>check_tokens\<close> tests the three tokens only. With endpoint and headers absent the
  program enters the loop, calls the HTTP client and sends a Telegram message.
\<close>

theorem loop_entered_without_endpoint:
  "\<not> truthy (ENDPOINT cfg_no_endpoint) \<and> \<not> truthy (HEADERS cfg_no_endpoint)
   \<and> main cfg_no_endpoint 500 [env_invalid_url] =
       Running
         (st_start\<lparr>last_error :=
            Some (msg_program_failure_prefix @ msg_api_failure_prefix @ ''Invalid URL'')\<rparr>)
         [HttpGet PNone PNone (PInt 500),
          Log ERROR (msg_program_failure_prefix @ msg_api_failure_prefix @ ''Invalid URL''),
          BotSend (PInt 1)
            (msg_program_failure_prefix @ msg_api_failure_prefix @ ''Invalid URL'') SendOk,
          Log INFO (msg_sent_prefix
                      @ (msg_program_failure_prefix @ msg_api_failure_prefix @ ''Invalid URL'')
                      @ msg_sent_suffix),
          Sleep 600]"
  using cycle_invalid_url check_tokens_no_endpoint
  by (simp add: main_def st_start_def cfg_no_endpoint_def)

text \<open>
  C3, amended: if any of the three required settings that \<open>check_tokens\<close> tests (API
  token, bot token, chat id) is absent or empty, \<open>main\<close> logs critically and exits at
  once: the critical log is its only event, so the loop is not entered and no network
  call is made. It cannot proceed unless all three are non-empty.
\<close>

theorem exit_when_token_missing:
  "\<not> (truthy (PRACTICUM_TOKEN cfg) \<and> truthy (TELEGRAM_TOKEN cfg)
        \<and> truthy (TELEGRAM_CHAT_ID cfg))
   \<Longrightarrow> main cfg start_time envs = SystemExit msg_exit [Log CRITICAL msg_tokens_unavailable]"
  by (simp add: main_def check_tokens_def)

theorem exit_when_token_missing_witness:
  "\<not> (truthy (PRACTICUM_TOKEN cfg_no_api_token) \<and> truthy (TELEGRAM_TOKEN cfg_no_api_token)
        \<and> truthy (TELEGRAM_CHAT_ID cfg_no_api_token))
   \<and> main cfg_no_api_token 500 [env_ok] =
       SystemExit msg_exit [Log CRITICAL msg_tokens_unavailable]"
proof -
  have h: "\<not> (truthy (PRACTICUM_TOKEN cfg_no_api_token)
               \<and> truthy (TELEGRAM_TOKEN cfg_no_api_token)
               \<and> truthy (TELEGRAM_CHAT_ID cfg_no_api_token))"
    by (simp add: cfg_no_api_token_def)
  show ?thesis
    using h exit_when_token_missing [OF h, of 500 "[env_ok]"] by blast
qed

section \<open>Validation of the response\<close>

text \<open>
  C4. For every response that is a dict but lacks the key \<open>homeworks\<close> or the key
  \<open>current_date\<close> (or both), \<open>check_response\<close> raises \<open>IncorrectApiAnswer\<close>, the
  error the claim calls IncorrectShapeError.
\<close>

theorem check_response_missing_key:
  "map_of d ''homeworks'' = None \<or> map_of d ''current_date'' = None
   \<Longrightarrow> check_response (PDict d) = Inl (IncorrectApiAnswer msg_incorrect_answer)"
  by (auto simp add: check_response_def)

theorem check_response_missing_key_witness:
  "(map_of [(''foo'', PInt 1)] ''homeworks'' = None
      \<or> map_of [(''foo'', PInt 1)] ''current_date'' = None)
   \<and> check_response (PDict [(''foo'', PInt 1)]) = Inl (IncorrectApiAnswer msg_incorrect_answer)"
proof -
  have h: "map_of [(''foo'', PInt 1)] ''homeworks'' = None
           \<or> map_of [(''foo'', PInt 1)] ''current_date'' = None"
    by simp
  show ?thesis
    using h check_response_missing_key [OF h] by blast
qed

section \<open>Formatting the status\<close>

text \<open>
  C5, as stated: the returned sentence is exactly
  \<open>Changed review status of work "{homework_name}". {verdict}\<close>. It fails on the text:
  the sentence of the source is Russian, so for the record of scenario 1 the result is
  not the English sentence.
\<close>

theorem parse_status_not_english:
  "parse_status example_cfg example_homework = ([], Inr example_status)
   \<and> example_status \<noteq> english_status"
  using parse_status_example
  by (simp add: example_status_def english_status_def msg_status_changed_prefix_def)

text \<open>
  C5, amended: for every homework record that has the key \<open>homework_name\<close> and a key
  \<open>status\<close> whose value is in \<open>HOMEWORK_STATUSES\<close>, \<open>parse_status\<close> logs nothing and
  returns exactly the text of the source, \<open>msg_status_changed_prefix\<close> (Russian for
  "The review status of the work has changed", followed by a double quote), the
  formatted name, a double quote, a full stop, a space, and the verdict of the status.
\<close>

theorem parse_status_sentence:
  "map_of h ''homework_name'' = Some name
   \<Longrightarrow> map_of h ''status'' = Some (PStr status)
   \<Longrightarrow> map_of (HOMEWORK_STATUSES cfg) status = Some verdict
   \<Longrightarrow> parse_status cfg (PDict h) =
         ([], Inr (msg_status_changed_prefix @ fstr cfg name @ dquote @ ''. '' @ verdict))"
  by (simp add: parse_status_def dict_get_def statuses_get_def msg_status_changed_middle_def)

theorem parse_status_sentence_witness:
  "map_of [(''homework_name'', PStr ''proj1''), (''status'', PStr ''approved'')]
      ''homework_name'' = Some (PStr ''proj1'')
   \<and> map_of [(''homework_name'', PStr ''proj1''), (''status'', PStr ''approved'')]
      ''status'' = Some (PStr ''approved'')
   \<and> map_of (HOMEWORK_STATUSES example_cfg) ''approved'' = Some ''Great job!''
   \<and> parse_status example_cfg
        (PDict [(''homework_name'', PStr ''proj1''), (''status'', PStr ''approved'')]) =
       ([], Inr (msg_status_changed_prefix @ ''proj1'' @ dquote @ ''. '' @ ''Great job!''))"
proof -
  have h1: "map_of [(''homework_name'', PStr ''proj1''), (''status'', PStr ''approved'')]
              ''homework_name'' = Some (PStr ''proj1'')"
    by simp
  have h2: "map_of [(''homework_name'', PStr ''proj1''), (''status'', PStr ''approved'')]
              ''status'' = Some (PStr ''approved'')"
    by simp
  have h3: "map_of (HOMEWORK_STATUSES example_cfg) ''approved'' = Some ''Great job!''"
    by (simp add: example_cfg_def)
  have f: "fstr example_cfg (PStr ''proj1'') = ''proj1''"
    by (simp add: fstr_def)
  show ?thesis
    using h1 h2 h3 parse_status_sentence [OF h1 h2 h3] unfolding f by blast
qed

section \<open>The request\<close>

text \<open>
  C6, as stated: for every integer timestamp \<open>\<ge> 0\<close> that the caller supplies, the
  request carries it as \<open>from_date\<close>. It fails at 0: \<open>current_timestamp or
  int(time.time())\<close> takes the current time for every falsy value, and 0 is falsy.
\<close>

theorem from_date_of_zero_is_now:
  "requests_of (fst (get_api_answer example_cfg env_ok (PInt 0))) =
     [(ENDPOINT example_cfg, HEADERS example_cfg, PInt 1700000000)]
   \<and> PInt 1700000000 \<noteq> PInt 0"
  by (simp add: get_api_answer_def env_ok_def Let_def)

text \<open>
  C6, amended: for every integer timestamp other than 0 that the caller supplies,
  \<open>get_api_answer\<close> sends one GET request, to the configured endpoint with the
  configured headers, whose \<open>from_date\<close> is that timestamp; when the caller supplies 0
  or \<open>None\<close>, \<open>from_date\<close> is the current time.
\<close>

theorem from_date_is_timestamp:
  "ts \<noteq> 0
   \<Longrightarrow> requests_of (fst (get_api_answer cfg env (PInt ts))) =
         [(ENDPOINT cfg, HEADERS cfg, PInt ts)]
       \<and> requests_of (fst (get_api_answer cfg env (PInt 0))) =
         [(ENDPOINT cfg, HEADERS cfg, PInt (time_now env))]
       \<and> requests_of (fst (get_api_answer cfg env PNone)) =
         [(ENDPOINT cfg, HEADERS cfg, PInt (time_now env))]"
  by (simp add: get_api_answer_def Let_def split: http_outcome.splits json_outcome.splits)

theorem from_date_is_timestamp_witness:
  "(1000::int) \<noteq> 0
   \<and> requests_of (fst (get_api_answer example_cfg env_ok (PInt 1000))) =
       [(ENDPOINT example_cfg, HEADERS example_cfg, PInt 1000)]
   \<and> requests_of (fst (get_api_answer example_cfg env_ok (PInt 0))) =
       [(ENDPOINT example_cfg, HEADERS example_cfg, PInt (time_now env_ok))]
   \<and> requests_of (fst (get_api_answer example_cfg env_ok PNone)) =
       [(ENDPOINT example_cfg, HEADERS example_cfg, PInt (time_now env_ok))]"
proof -
  have h: "(1000::int) \<noteq> 0"
    by simp
  show ?thesis
    using h from_date_is_timestamp [OF h, of example_cfg env_ok] by blast
qed

section \<open>A body that is not JSON\<close>

text \<open>
  C7. If the body of a response with status 200 fails to decode as JSON,
  \<open>get_api_answer\<close> logs the error and returns \<open>None\<close> instead of raising, and
  \<open>check_response\<close> applied to this result raises \<open>EmptyResponse\<close>.
\<close>

theorem undecodable_body_gives_empty_response:
  "http env = Response 200 JsonDecodeError
   \<Longrightarrow> get_api_answer cfg env ts =
         ([HttpGet (ENDPOINT cfg) (HEADERS cfg)
             (if truthy ts then ts else PInt (time_now env)),
           Log ERROR jsn_message], Inr PNone)
       \<and> check_response PNone = Inl (EmptyResponse msg_empty_response)"
  by (simp add: get_api_answer_def check_response_def Let_def)

theorem undecodable_body_gives_empty_response_witness:
  "http env_bad_json = Response 200 JsonDecodeError
   \<and> get_api_answer example_cfg env_bad_json (PInt 500) =
       ([HttpGet (ENDPOINT example_cfg) (HEADERS example_cfg) (PInt 500),
         Log ERROR jsn_message], Inr PNone)
   \<and> check_response PNone = Inl (EmptyResponse msg_empty_response)"
proof -
  have h: "http env_bad_json = Response 200 JsonDecodeError"
    by (simp add: env_bad_json_def env_ok_def)
  show ?thesis
    using h undecodable_body_gives_empty_response [OF h, of example_cfg "PInt 500"] by simp
qed

section \<open>The log of a clean cycle\<close>

text \<open>
  C8, as stated: the info log saying that the cycle ran without errors is written also
  in a cycle where a step raised an exception that was caught, such as
  \<open>NoHomeworkInfo\<close> for an empty list of homeworks. It fails: the log is in the
  \<open>else\<close> branch of the \<open>try\<close> statement, which an exception skips.
\<close>

theorem no_clean_log_after_no_homework:
  "snd (try_body example_cfg env_empty st_start) = Inl (NoHomeworkInfo msg_no_homework)
   \<and> Log INFO msg_no_errors \<notin> set (fst (cycle example_cfg env_empty st_start))"
  using no_errors_not_no_homework no_errors_not_sent
  by (simp add: cycle_empty try_body_empty)

text \<open>
  C8, amended: the info log saying that the cycle ran without errors is written in
  exactly the cycles whose \<open>try\<close> block raised no exception; in a cycle where a step
  raised, such as \<open>NoHomeworkInfo\<close> for an empty list of homeworks, it is not written.
\<close>

theorem clean_log_iff_no_exception:
  "Log INFO msg_no_errors \<in> set (fst (cycle cfg env st))
   \<longleftrightarrow> (\<exists>st'. snd (try_body cfg env st) = Inr st')"
  using try_body_no_clean_log [of cfg env st]
  by (auto simp add: cycle_def Let_def no_errors_not_sent
        split: prod.splits sum.splits if_splits
        dest: send_message_no_clean_log)

theorem clean_log_iff_no_exception_witness:
  "snd (try_body example_cfg env_ok st_start) =
     Inr \<lparr>current_timestamp = PInt 1000, last_message = Some example_status,
          last_error = None\<rparr>
   \<and> Log INFO msg_no_errors \<in> set (fst (cycle example_cfg env_ok st_start))
   \<and> snd (try_body example_cfg env_empty st_start) = Inl (NoHomeworkInfo msg_no_homework)
   \<and> Log INFO msg_no_errors \<notin> set (fst (cycle example_cfg env_empty st_start))"
proof -
  have a: "snd (try_body example_cfg env_ok st_start) =
             Inr \<lparr>current_timestamp = PInt 1000, last_message = Some example_status,
                  last_error = None\<rparr>"
    by (simp add: try_body_ok)
  have b: "snd (try_body example_cfg env_empty st_start) = Inl (NoHomeworkInfo msg_no_homework)"
    by (simp add: try_body_empty)
  have c: "Log INFO msg_no_errors \<in> set (fst (cycle example_cfg env_ok st_start))"
    using a clean_log_iff_no_exception [of example_cfg env_ok st_start] by blast
  have d: "Log INFO msg_no_errors \<notin> set (fst (cycle example_cfg env_empty st_start))"
    using b clean_log_iff_no_exception [of example_cfg env_empty st_start] by simp
  show ?thesis
    using a b c d by blast
qed

section \<open>The timestamp of a failing cycle\<close>

text \<open>
  C9. In every cycle in which a step raises an exception, \<open>current_timestamp\<close> is
  unchanged: the state with which the next cycle starts has the timestamp with which the
  failing cycle started, since the assignment from \<open>current_date\<close> is the last statement
  of the \<open>try\<close> block.
\<close>

theorem timestamp_unchanged_after_exception:
  "snd (try_body cfg env st) = Inl error
   \<Longrightarrow> current_timestamp (state_after cfg env st) = current_timestamp st"
  using cycle_timestamp_after_exception [of cfg env st "fst (try_body cfg env st)" error]
  by (simp add: state_after_def prod_eq_iff)

theorem timestamp_unchanged_after_exception_witness:
  "snd (try_body example_cfg env_send_fails st_start) =
     Inl (SendMessageFailure (msg_send_failure_prefix @ ''down''))
   \<and> current_timestamp (state_after example_cfg env_send_fails st_start) = PInt 500
   \<and> current_timestamp st_start = PInt 500"
proof -
  have h: "snd (try_body example_cfg env_send_fails st_start) =
             Inl (SendMessageFailure (msg_send_failure_prefix @ ''down''))"
    by (simp add: try_body_send_fails)
  have s: "current_timestamp st_start = PInt 500"
    by (simp add: st_start_def)
  show ?thesis
    using h s timestamp_unchanged_after_exception [OF h] by simp
qed

section \<open>Bookkeeping of the last sent messages\<close>




end
